theory Spec2Isabelle
  imports Complex_Main
begin

section \<open>Floating-point values\<close>

text \<open>
  The numbers of \<^verbatim>\<open>stellar.py\<close> are IEEE doubles (\<^verbatim>\<open>numpy.float64\<close> and Python
  \<^verbatim>\<open>float\<close>). They are modelled as the real numbers extended by the two
  infinities and NaN. Rounding, overflow of a finite result to infinity and the sign
  of zero are not modelled; the special values and the way they propagate through
  the operations used by the code are.
\<close>

datatype fl = Fin real | PInf | NInf | NaN

text \<open>\<^verbatim>\<open>np.isfinite\<close>\<close>

fun isfinite :: "fl \<Rightarrow> bool" where
  "isfinite (Fin _) = True"
| "isfinite _ = False"

fun fneg :: "fl \<Rightarrow> fl" where
  "fneg (Fin a) = Fin (- a)"
| "fneg PInf = NInf"
| "fneg NInf = PInf"
| "fneg NaN = NaN"

fun fadd :: "fl \<Rightarrow> fl \<Rightarrow> fl" where
  "fadd NaN _ = NaN"
| "fadd _ NaN = NaN"
| "fadd (Fin a) (Fin b) = Fin (a + b)"
| "fadd PInf NInf = NaN"
| "fadd NInf PInf = NaN"
| "fadd PInf _ = PInf"
| "fadd _ PInf = PInf"
| "fadd NInf _ = NInf"
| "fadd _ NInf = NInf"

definition fsub :: "fl \<Rightarrow> fl \<Rightarrow> fl" where
  "fsub a b = fadd a (fneg b)"

text \<open>The sign of a non-NaN value: \<open>-1\<close>, \<open>0\<close> or \<open>1\<close>.\<close>

fun fsgn :: "fl \<Rightarrow> real" where
  "fsgn (Fin a) = sgn a"
| "fsgn PInf = 1"
| "fsgn NInf = - 1"
| "fsgn NaN = 0"

definition inf_of_sign :: "real \<Rightarrow> fl" where
  "inf_of_sign s = (if s = 0 then NaN else if 0 < s then PInf else NInf)"

fun fmul :: "fl \<Rightarrow> fl \<Rightarrow> fl" where
  "fmul NaN _ = NaN"
| "fmul _ NaN = NaN"
| "fmul (Fin a) (Fin b) = Fin (a * b)"
| "fmul x y = inf_of_sign (fsgn x * fsgn y)"

text \<open>
  \<^verbatim>\<open>x / y\<close> on numpy scalars and arrays: division by zero gives an infinity or NaN
  (with a warning), never an exception.
\<close>

fun np_div :: "fl \<Rightarrow> fl \<Rightarrow> fl" where
  "np_div NaN _ = NaN"
| "np_div _ NaN = NaN"
| "np_div (Fin a) (Fin b) = (if b = 0 then inf_of_sign (sgn a) else Fin (a / b))"
| "np_div (Fin a) _ = Fin 0"
| "np_div x (Fin b) = inf_of_sign (fsgn x * (if b < 0 then - 1 else 1))"
| "np_div _ _ = NaN"

text \<open>\<^verbatim>\<open>x ** 2\<close>, \<^verbatim>\<open>np.sqrt\<close>, \<^verbatim>\<open>np.exp\<close>, \<^verbatim>\<open>np.log\<close>, \<^verbatim>\<open>np.abs\<close>\<close>

fun fsquare :: "fl \<Rightarrow> fl" where
  "fsquare (Fin a) = Fin (a\<^sup>2)"
| "fsquare NaN = NaN"
| "fsquare _ = PInf"

fun fsqrt :: "fl \<Rightarrow> fl" where
  "fsqrt (Fin a) = (if a < 0 then NaN else Fin (sqrt a))"
| "fsqrt PInf = PInf"
| "fsqrt _ = NaN"

fun fexp :: "fl \<Rightarrow> fl" where
  "fexp (Fin a) = Fin (exp a)"
| "fexp PInf = PInf"
| "fexp NInf = Fin 0"
| "fexp NaN = NaN"

fun flog :: "fl \<Rightarrow> fl" where
  "flog (Fin a) = (if a < 0 then NaN else if a = 0 then NInf else Fin (ln a))"
| "flog PInf = PInf"
| "flog _ = NaN"

fun fabs :: "fl \<Rightarrow> fl" where
  "fabs (Fin a) = Fin \<bar>a\<bar>"
| "fabs NaN = NaN"
| "fabs _ = PInf"

text \<open>\<^verbatim>\<open>x < y\<close>: false as soon as one side is NaN.\<close>

fun flt :: "fl \<Rightarrow> fl \<Rightarrow> bool" where
  "flt NaN _ = False"
| "flt _ NaN = False"
| "flt (Fin a) (Fin b) = (a < b)"
| "flt _ NInf = False"
| "flt PInf _ = False"
| "flt _ _ = True"

text \<open>\<^verbatim>\<open>np.maximum\<close> and \<^verbatim>\<open>np.minimum\<close> propagate NaN; \<^verbatim>\<open>np.clip(x, lo, hi)\<close> is
  \<^verbatim>\<open>minimum(maximum(x, lo), hi)\<close>.\<close>

fun np_maximum :: "fl \<Rightarrow> fl \<Rightarrow> fl" where
  "np_maximum NaN _ = NaN"
| "np_maximum _ NaN = NaN"
| "np_maximum a b = (if flt a b then b else a)"

fun np_minimum :: "fl \<Rightarrow> fl \<Rightarrow> fl" where
  "np_minimum NaN _ = NaN"
| "np_minimum _ NaN = NaN"
| "np_minimum a b = (if flt b a then b else a)"

definition np_clip :: "fl \<Rightarrow> fl \<Rightarrow> fl \<Rightarrow> fl" where
  "np_clip x lo hi = np_minimum (np_maximum x lo) hi"

section \<open>Python values and errors\<close>

text \<open>
  The exceptions the modelled code can raise. The three failures of the catalog
  lookup are all \<^verbatim>\<open>ValueError\<close>, told apart by their message.
\<close>

datatype error =
    ValueError string
  | ZeroDivisionError
  | KeyError string
  | IndexError
  | TypeError
  | AttributeError
  | OSError

text \<open>
  \<^verbatim>\<open>a / b\<close> on Python floats (the results of \<^verbatim>\<open>float(...)\<close>): a zero divisor
  raises \<^verbatim>\<open>ZeroDivisionError\<close> whatever the dividend is.
\<close>

definition py_truediv :: "fl \<Rightarrow> fl \<Rightarrow> error + fl" where
  "py_truediv a b = (if b = Fin 0 then Inl ZeroDivisionError else Inr (np_div a b))"

text \<open>
  The values a measurement record holds: a one-dimensional \<^verbatim>\<open>numpy\<close> array, a
  tuple of floats, a \<^verbatim>\<open>numpy.float64\<close> scalar or a plain Python float.
\<close>

datatype pyval = NdArray "fl list" | Tuple "fl list" | NpFloat fl | PyFloat fl

type_synonym pydict = "string \<rightharpoonup> pyval"

text \<open>\<^verbatim>\<open>np.array(v, dtype=np.float64)\<close>\<close>

fun np_array :: "pyval \<Rightarrow> pyval" where
  "np_array (NdArray xs) = NdArray xs"
| "np_array (Tuple xs) = NdArray xs"
| "np_array (NpFloat x) = NdArray [x]"
| "np_array (PyFloat x) = NdArray [x]"

text \<open>\<^verbatim>\<open>v[i]\<close> for a non-negative index \<open>i\<close>\<close>

fun py_index :: "pyval \<Rightarrow> nat \<Rightarrow> error + fl" where
  "py_index (NdArray xs) i = (if i < length xs then Inr (xs ! i) else Inl IndexError)"
| "py_index (Tuple xs) i = (if i < length xs then Inr (xs ! i) else Inl IndexError)"
| "py_index (NpFloat x) i = Inl IndexError"
| "py_index (PyFloat x) i = Inl TypeError"

section \<open>Catalog lookup: \<^verbatim>\<open>get_gaia_data\<close>\<close>

text \<open>A row of the cone-search result, with the columns the code reads.\<close>

record gaia_row =
  parallax :: fl
  parallax_error :: fl
  phot_g_mean_mag :: fl
  phot_g_mean_flux :: fl
  phot_g_mean_flux_error :: fl
  phot_bp_mean_mag :: fl
  phot_bp_mean_flux :: fl
  phot_bp_mean_flux_error :: fl
  phot_rp_mean_mag :: fl
  phot_rp_mean_flux :: fl
  phot_rp_mean_flux_error :: fl

datatype band = G | BP | RP

text \<open>The band's name, which is its key in the record.\<close>

fun band_key :: "band \<Rightarrow> string" where
  "band_key G = ''G''"
| "band_key BP = ''BP''"
| "band_key RP = ''RP''"

text \<open>\<^verbatim>\<open>r["phot_{0}_mean_mag".format(band.lower())]\<close> and its two siblings\<close>

fun phot_mean_mag :: "gaia_row \<Rightarrow> band \<Rightarrow> fl" where
  "phot_mean_mag r G = phot_g_mean_mag r"
| "phot_mean_mag r BP = phot_bp_mean_mag r"
| "phot_mean_mag r RP = phot_rp_mean_mag r"

fun phot_mean_flux :: "gaia_row \<Rightarrow> band \<Rightarrow> fl" where
  "phot_mean_flux r G = phot_g_mean_flux r"
| "phot_mean_flux r BP = phot_bp_mean_flux r"
| "phot_mean_flux r RP = phot_rp_mean_flux r"

fun phot_mean_flux_error :: "gaia_row \<Rightarrow> band \<Rightarrow> fl" where
  "phot_mean_flux_error r G = phot_g_mean_flux_error r"
| "phot_mean_flux_error r BP = phot_bp_mean_flux_error r"
| "phot_mean_flux_error r RP = phot_rp_mean_flux_error r"

text \<open>
  Line 47, the mask \<^verbatim>\<open>np.abs(r["phot_g_mean_mag"] - approx_mag) < mag_tol\<close> for one
  row: the row is kept when the mask is true.
\<close>

definition mag_mask :: "fl \<Rightarrow> fl \<Rightarrow> gaia_row \<Rightarrow> bool" where
  "mag_mask approx_mag mag_tol row = flt (fabs (fsub (phot_g_mean_mag row) approx_mag)) mag_tol"

text \<open>
  Lines 40 to 47: the cone search (an external service, the parameter
  \<open>cone_search\<close>, which takes the coordinates and the radius in arc seconds) and the
  optional magnitude filter.
\<close>

definition candidates ::
  "('c \<Rightarrow> real \<Rightarrow> gaia_row list) \<Rightarrow> 'c \<Rightarrow> fl option \<Rightarrow> real option \<Rightarrow> fl \<Rightarrow> gaia_row list" where
  "candidates cone_search coord approx_mag radius mag_tol =
     (let radius = (case radius of None \<Rightarrow> 20 | Some x \<Rightarrow> x);
          r = cone_search coord radius
      in case approx_mag of
           None \<Rightarrow> r
         | Some m \<Rightarrow> filter (mag_mask m mag_tol) r)"

text \<open>Lines 49 to 53: no candidate is an error, otherwise the first one is taken.\<close>

definition gaia_match ::
  "('c \<Rightarrow> real \<Rightarrow> gaia_row list) \<Rightarrow> 'c \<Rightarrow> fl option \<Rightarrow> real option \<Rightarrow> fl \<Rightarrow> error + gaia_row" where
  "gaia_match cone_search coord approx_mag radius mag_tol =
     (case candidates cone_search coord approx_mag radius mag_tol of
        [] \<Rightarrow> Inl (ValueError ''no matches found'')
      | r0 # _ \<Rightarrow> Inr r0)"

text \<open>\<^verbatim>\<open>factor = 2.5 / np.log(10)\<close>\<close>

definition factor :: fl where
  "factor = Fin (2.5 / ln 10)"

text \<open>Lines 65 to 72: the loop over the bands, filling \<^verbatim>\<open>params\<close>.\<close>

fun band_params :: "gaia_row \<Rightarrow> band list \<Rightarrow> pydict \<Rightarrow> error + pydict" where
  "band_params r [] params = Inr params"
| "band_params r (b # bands) params =
     (let mag = phot_mean_mag r b;
          err = phot_mean_flux_error r b
      in case py_truediv err (phot_mean_flux r b) of
           Inl e \<Rightarrow> Inl e
         | Inr err \<Rightarrow>
             (let err = fmul err factor
              in if \<not> (isfinite mag \<and> isfinite err)
                 then Inl (ValueError ''non finite params'')
                 else band_params r bands (params(band_key b \<mapsto> Tuple [mag, err]))))"

text \<open>
  Lines 55 to 84, on the chosen row: the parallax correction, the band loop, the
  conversion of every value to an array, the distance bound and the merge of the
  extra keyword arguments (\<^verbatim>\<open>dict(params, **kwargs)\<close>, where \<^verbatim>\<open>kwargs\<close> wins on a
  shared key).
\<close>

definition gaia_params :: "gaia_row \<Rightarrow> pydict \<Rightarrow> error + pydict" where
  "gaia_params r kwargs =
     (let plx = fadd (parallax r) (Fin 0.082);
          plx_err = fsqrt (fadd (fsquare (parallax_error r)) (Fin (0.033\<^sup>2)))
      in if \<not> (isfinite plx \<and> isfinite plx_err)
         then Inl (ValueError ''non finite parallax'')
         else case band_params r [G, BP, RP] Map.empty of
                Inl e \<Rightarrow> Inl e
              | Inr params \<Rightarrow>
                  (let params = params(''parallax'' \<mapsto> Tuple [plx, plx_err]);
                       params = (\<lambda>k. map_option np_array (params k));
                       params = (if flt (Fin 0) plx
                                 then params(''max_distance'' \<mapsto>
                                        NpFloat (np_clip (np_div (Fin 2000) plx) (Fin 100) PInf))
                                 else params)
                   in Inr (params ++ kwargs)))"

definition get_gaia_data ::
  "('c \<Rightarrow> real \<Rightarrow> gaia_row list) \<Rightarrow> 'c \<Rightarrow> fl option \<Rightarrow> real option \<Rightarrow> fl \<Rightarrow> pydict
     \<Rightarrow> error + pydict" where
  "get_gaia_data cone_search coord approx_mag radius mag_tol kwargs =
     (case gaia_match cone_search coord approx_mag radius mag_tol of
        Inl e \<Rightarrow> Inl e
      | Inr r \<Rightarrow> gaia_params r kwargs)"

section \<open>Model fit: \<^verbatim>\<open>fit_gaia_data\<close>\<close>

subsection \<open>Objects, tables and files\<close>

text \<open>
  Dictionaries are objects: the store is the list of the live dictionaries, and a
  reference is an index into it. Allocation appends. A reference handed to the code
  is live, that is, below the length of the store.
\<close>

type_synonym store = "pydict list"

text \<open>A \<^verbatim>\<open>pandas.DataFrame\<close>: column name to column, rows by position.\<close>

type_synonym table = "string \<rightharpoonup> fl list"

text \<open>A two-dimensional \<^verbatim>\<open>numpy\<close> array of shape \<open>(length rows, shape1)\<close>.\<close>

record ndarray2 =
  shape1 :: nat
  rows :: "fl list list"

text \<open>Iterating over \<^verbatim>\<open>a.T\<close> yields the columns of \<open>a\<close>.\<close>

definition array_T :: "ndarray2 \<Rightarrow> fl list list" where
  "array_T a = map (\<lambda>j. map (\<lambda>r. r ! j) (rows a)) [0..<shape1 a]"

datatype json = JFloat fl | JInt int | JList "fl list"

datatype file_content = Hdf "string \<rightharpoonup> table" | JsonFile "string \<rightharpoonup> json" | CsvFile table

text \<open>
  The state the fit acts on: the store, the file system (directories and files by
  path), the number of sampler runs so far and the minutes printed to standard
  output. The file-system calls \<^verbatim>\<open>os.makedirs\<close> and \<^verbatim>\<open>open\<close> are taken to succeed;
  intermediate directories are not tracked.
\<close>

record world =
  objs :: store
  dirs :: "string set"
  files :: "string \<rightharpoonup> file_content"
  sampler_runs :: nat
  stdout :: "fl list"

text \<open>\<^verbatim>\<open>os.path.join\<close> on POSIX, for two components\<close>

definition path_join :: "string \<Rightarrow> string \<Rightarrow> string" where
  "path_join a b =
     (if b \<noteq> [] \<and> hd b = CHR ''/'' then b
      else if a = [] \<or> last a = CHR ''/'' then a @ b
      else a @ ''/'' @ b)"

definition path_exists :: "world \<Rightarrow> string \<Rightarrow> bool" where
  "path_exists w p = (files w p \<noteq> None \<or> p \<in> dirs w)"

text \<open>\<^verbatim>\<open>pd.read_hdf(fn, key)\<close> and \<^verbatim>\<open>df.to_hdf(fn, key)\<close> (which appends to the file)\<close>

definition read_hdf :: "(string \<rightharpoonup> file_content) \<Rightarrow> string \<Rightarrow> string \<Rightarrow> error + table" where
  "read_hdf fs fn key =
     (case fs fn of
        Some (Hdf tabs) \<Rightarrow> (case tabs key of Some t \<Rightarrow> Inr t | None \<Rightarrow> Inl (KeyError key))
      | _ \<Rightarrow> Inl OSError)"

definition to_hdf ::
  "(string \<rightharpoonup> file_content) \<Rightarrow> string \<Rightarrow> string \<Rightarrow> table \<Rightarrow> error + (string \<rightharpoonup> file_content)" where
  "to_hdf fs fn key t =
     (case fs fn of
        None \<Rightarrow> Inr (fs(fn \<mapsto> Hdf [key \<mapsto> t]))
      | Some (Hdf tabs) \<Rightarrow> Inr (fs(fn \<mapsto> Hdf (tabs(key \<mapsto> t))))
      | _ \<Rightarrow> Inl OSError)"

subsection \<open>The external model and sampler\<close>

text \<open>
  \<^verbatim>\<open>mod\<close>, as far as this code touches it: the dictionary \<^verbatim>\<open>mod.kwargs\<close> (a
  reference) and the two sample tables \<^verbatim>\<open>mod._samples\<close> and
  \<^verbatim>\<open>mod._derived_samples\<close>.
\<close>

record model =
  kwargs_ref :: nat
  m_samples :: "table option"
  m_derived_samples :: "table option"

record sampler_results =
  res_samples :: ndarray2
  res_logwt :: "fl list"
  res_logz :: "fl list"
  res_logzerr :: "fl list"
  res_nlive :: int
  res_niter :: int
  res_ncall :: "int list"
  res_eff :: fl

type_synonym loglike_fn = "store \<Rightarrow> fl list \<Rightarrow> (error + fl) \<times> store"

text \<open>
  What the libraries and the environment provide, taken as parameters: the package
  version, the model's parameter count and names, its log-posterior (which reads
  \<^verbatim>\<open>mod.kwargs\<close>), its prior transform and its forward mapping \<^verbatim>\<open>mod.ic\<close>; the
  nested sampler, which is given the two wrapped functions and the dimension and may
  evaluate the log-likelihood on the store; \<^verbatim>\<open>dynesty.utils.resample_equal\<close>;
  \<^verbatim>\<open>DataFrame.describe().transpose()\<close>; and the two readings of \<^verbatim>\<open>time.time()\<close>.
\<close>

record externals =
  version :: string
  n_params :: nat
  param_names :: "string list"
  lnpost :: "pydict \<Rightarrow> fl list \<Rightarrow> fl"
  mnest_prior :: "fl list \<Rightarrow> fl list"
  ic :: "fl list list \<Rightarrow> table"
  run_nested :: "loglike_fn \<Rightarrow> (fl list \<Rightarrow> fl list) \<Rightarrow> nat \<Rightarrow> store
                   \<Rightarrow> (error + sampler_results) \<times> store"
  resample_equal :: "ndarray2 \<Rightarrow> fl list \<Rightarrow> ndarray2"
  describe :: "table \<Rightarrow> table"
  time_start :: fl
  time_end :: fl

text \<open>
  Line 93, \<^verbatim>\<open>isochrones.SingleStarModel(mist, **gaia_data)\<close>: the call unpacks the
  record into a new keyword dictionary, which the model keeps as \<^verbatim>\<open>mod.kwargs\<close>.
\<close>

definition SingleStarModel :: "store \<Rightarrow> nat \<Rightarrow> model \<times> store" where
  "SingleStarModel h gaia_data =
     (\<lparr>kwargs_ref = length h, m_samples = None, m_derived_samples = None\<rparr>,
      h @ [h ! gaia_data])"

subsection \<open>The wrapped prior and likelihood\<close>

definition jitter_vars :: "string list" where
  "jitter_vars = [''G'', ''BP'', ''RP'']"

text \<open>Lines 113 to 117; the slice passed to \<^verbatim>\<open>mnest_prior\<close> is a view of \<^verbatim>\<open>cube\<close>.\<close>

definition prior_transform :: "externals \<Rightarrow> fl list \<Rightarrow> fl list" where
  "prior_transform ext u =
     mnest_prior ext (take (n_params ext) u)
       @ map (\<lambda>x. fadd (Fin (- 10)) (fmul (Fin 20) x)) (drop (n_params ext) u)"

text \<open>
  Lines 122 to 125, the loop over \<^verbatim>\<open>enumerate(jitter_vars)\<close>. \<open>gaia_data\<close> is the
  reference to the caller's record; the assignment of line 125 writes the dictionary
  \<^verbatim>\<open>mod.kwargs\<close>. An exception leaves the writes made so far in place.
\<close>

fun jitter_loop ::
  "nat \<Rightarrow> model \<Rightarrow> nat \<Rightarrow> fl list \<Rightarrow> (nat \<times> string) list \<Rightarrow> fl \<Rightarrow> store
     \<Rightarrow> (error + fl) \<times> store" where
  "jitter_loop gaia_data md ind0 theta [] lp0 h = (Inr lp0, h)"
| "jitter_loop gaia_data md ind0 theta ((i, k) # rest) lp0 h =
     (case (h ! gaia_data) k of
        None \<Rightarrow> (Inl (KeyError k), h)
      | Some v \<Rightarrow>
          (case py_index v 1 of
             Inl e \<Rightarrow> (Inl e, h)
           | Inr e1 \<Rightarrow>
               if \<not> ind0 + i < length theta then (Inl IndexError, h)
               else
                 (let err = fsqrt (fadd (fsquare e1) (fexp (theta ! (ind0 + i))));
                      lp0 = fsub lp0 (fmul (Fin 2) (flog err))
                  in case py_index v 0 of
                       Inl e \<Rightarrow> (Inl e, h)
                     | Inr m \<Rightarrow>
                         jitter_loop gaia_data md ind0 theta rest lp0
                           (h[kwargs_ref md := (h ! kwargs_ref md)(k \<mapsto> Tuple [m, err])]))))"

text \<open>Lines 119 to 129.\<close>

definition loglike :: "externals \<Rightarrow> nat \<Rightarrow> model \<Rightarrow> loglike_fn" where
  "loglike ext gaia_data md h theta =
     (let ind0 = n_params ext
      in case jitter_loop gaia_data md ind0 theta (enumerate 0 jitter_vars) (Fin 0) h of
           (Inl e, h') \<Rightarrow> (Inl e, h')
         | (Inr lp0, h') \<Rightarrow>
             (let lp = fadd lp0 (lnpost ext (h' ! kwargs_ref md) (take (n_params ext) theta))
              in (if isfinite lp then Inr (np_clip lp (Fin (- (10 ^ 10))) PInf)
                  else Inr (Fin (- (10 ^ 10))), h')))"

text \<open>
  The sampler evaluates the log-likelihood as often as it likes: the store after the
  evaluations at the points \<open>thetas\<close>, in order, whatever each one returned.
\<close>

fun loglike_evals :: "loglike_fn \<Rightarrow> store \<Rightarrow> fl list list \<Rightarrow> store" where
  "loglike_evals f h [] = h"
| "loglike_evals f h (theta # thetas) = loglike_evals f (snd (f h theta)) thetas"

subsection \<open>The fit\<close>

text \<open>\<^verbatim>\<open>v.tolist()\<close>, which only \<^verbatim>\<open>numpy\<close> values have\<close>

fun tolist :: "pyval \<Rightarrow> error + json" where
  "tolist (NdArray xs) = Inr (JList xs)"
| "tolist (NpFloat x) = Inr (JFloat x)"
| "tolist (Tuple xs) = Inl AttributeError"
| "tolist (PyFloat x) = Inl AttributeError"

text \<open>Lines 105 to 106: the dictionary written to \<^verbatim>\<open>gaia.json\<close>.\<close>

definition gaia_json :: "pydict \<Rightarrow> error + (string \<rightharpoonup> json)" where
  "gaia_json gd =
     (if \<exists>v \<in> ran gd. tolist v = Inl AttributeError then Inl AttributeError
      else Inr (\<lambda>k. case gd k of
                       None \<Rightarrow> None
                     | Some v \<Rightarrow> (case tolist v of Inl e \<Rightarrow> None | Inr j \<Rightarrow> Some j)))"

text \<open>\<^verbatim>\<open>xs[-1]\<close>\<close>

definition last_item :: "'a list \<Rightarrow> error + 'a" where
  "last_item xs = (if xs = [] then Inl IndexError else Inr (last xs))"

text \<open>\<^verbatim>\<open>[df[c].values for c in names]\<close>\<close>

fun frame_columns :: "table \<Rightarrow> string list \<Rightarrow> error + fl list list" where
  "frame_columns df [] = Inr []"
| "frame_columns df (c # cs) =
     (case df c of
        None \<Rightarrow> Inl (KeyError c)
      | Some col \<Rightarrow>
          (case frame_columns df cs of Inl e \<Rightarrow> Inl e | Inr cols \<Rightarrow> Inr (col # cols)))"

text \<open>
  Lines 142 to 154: the equal-weight resampling and the frame of posterior samples.
  In \<^verbatim>\<open>dict(zip(names, columns))\<close> a later pair wins over an earlier one with the same
  name.
\<close>

definition posterior_frame :: "externals \<Rightarrow> sampler_results \<Rightarrow> error + table" where
  "posterior_frame ext results =
     (case last_item (res_logz results) of
        Inl e \<Rightarrow> Inl e
      | Inr logz \<Rightarrow>
          (let samples = resample_equal ext (res_samples results)
                           (map (\<lambda>lw. fexp (fsub lw logz)) (res_logwt results));
               names = param_names ext @ map (\<lambda>k. ''log_jitter_'' @ k) jitter_vars
           in Inr (map_of (rev (zip names (array_T samples))))))"

text \<open>
  Lines 155 to 158: the derived samples. The column assignments are by position
  (both frames carry the default row index).
\<close>

definition derived_frame :: "externals \<Rightarrow> table \<Rightarrow> error + table" where
  "derived_frame ext df =
     (case frame_columns df (param_names ext) of
        Inl e \<Rightarrow> Inl e
      | Inr cols \<Rightarrow>
          (let derived = ic ext cols
           in case df ''distance'' of
                None \<Rightarrow> Inl (KeyError ''distance'')
              | Some distance \<Rightarrow>
                  (let derived = derived(''parallax'' \<mapsto> map (np_div (Fin 1000)) distance);
                       derived = derived(''distance'' \<mapsto> distance)
                   in case df ''AV'' of
                        None \<Rightarrow> Inl (KeyError ''AV'')
                      | Some av \<Rightarrow> Inr (derived(''AV'' \<mapsto> av)))))"

text \<open>Lines 170 to 178: the summary of the sampling performance.\<close>

definition sampling_summary :: "sampler_results \<Rightarrow> fl \<Rightarrow> error + (string \<rightharpoonup> json)" where
  "sampling_summary results total_time =
     (case last_item (res_logz results) of
        Inl e \<Rightarrow> Inl e
      | Inr logz \<Rightarrow>
          (case last_item (res_logzerr results) of
             Inl e \<Rightarrow> Inl e
           | Inr logzerr \<Rightarrow>
               Inr [''nlive'' \<mapsto> JInt (res_nlive results),
                    ''niter'' \<mapsto> JInt (res_niter results),
                    ''ncall'' \<mapsto> JInt (sum_list (res_ncall results)),
                    ''eff'' \<mapsto> JFloat (res_eff results),
                    ''logz'' \<mapsto> JFloat logz,
                    ''logzerr'' \<mapsto> JFloat logzerr,
                    ''total_time'' \<mapsto> JFloat total_time]))"

text \<open>Lines 160 to 182: the files written after sampling.\<close>

definition persist ::
  "externals \<Rightarrow> string \<Rightarrow> string \<Rightarrow> table \<Rightarrow> table \<Rightarrow> sampler_results \<Rightarrow> fl \<Rightarrow> world
     \<Rightarrow> error + world" where
  "persist ext output_dir fn df derived results total_time w =
     (case to_hdf (files w) fn ''samples'' df of
        Inl e \<Rightarrow> Inl e
      | Inr fs \<Rightarrow>
          (case to_hdf fs fn ''derived_samples'' derived of
             Inl e \<Rightarrow> Inl e
           | Inr fs \<Rightarrow>
               (let fs = fs(path_join output_dir ''star_summary.csv''
                              \<mapsto> CsvFile (describe ext derived))
                in case sampling_summary results total_time of
                     Inl e \<Rightarrow> Inl e
                   | Inr summary \<Rightarrow>
                       Inr (w\<lparr>files := fs(path_join output_dir ''star_sampling_summary.json''
                                            \<mapsto> JsonFile summary)\<rparr>))))"

datatype fit_result = Loaded model | Fitted model sampler_results

text \<open>
  Lines 104 to 184, the fresh run. The state returned with an exception is the one
  reached when it was raised.
\<close>

definition fresh_fit ::
  "externals \<Rightarrow> nat \<Rightarrow> model \<Rightarrow> string \<Rightarrow> string \<Rightarrow> world \<Rightarrow> (error + fit_result) \<times> world" where
  "fresh_fit ext gaia_data md output_dir fn w =
     (let json_fn = path_join output_dir ''gaia.json'';
          w = w\<lparr>files := (files w)(json_fn \<mapsto> JsonFile Map.empty)\<rparr>
      in case gaia_json (objs w ! gaia_data) of
           Inl e \<Rightarrow> (Inl e, w)
         | Inr js \<Rightarrow>
             (let w = w\<lparr>files := (files w)(json_fn \<mapsto> JsonFile js)\<rparr>;
                  (r, h) = run_nested ext (loglike ext gaia_data md) (prior_transform ext)
                             (n_params ext + length jitter_vars) (objs w);
                  w = w\<lparr>objs := h, sampler_runs := Suc (sampler_runs w)\<rparr>
              in case r of
                   Inl e \<Rightarrow> (Inl e, w)
                 | Inr results \<Rightarrow>
                     (let total_time = np_div (fsub (time_end ext) (time_start ext)) (Fin 60);
                          w = w\<lparr>stdout := stdout w @ [total_time]\<rparr>
                      in case posterior_frame ext results of
                           Inl e \<Rightarrow> (Inl e, w)
                         | Inr df \<Rightarrow>
                             (case derived_frame ext df of
                                Inl e \<Rightarrow> (Inl e, w)
                              | Inr derived \<Rightarrow>
                                  (case persist ext output_dir fn df derived results total_time w of
                                     Inl e \<Rightarrow> (Inl e, w)
                                   | Inr w' \<Rightarrow>
                                       (Inr (Fitted
                                               (md\<lparr>m_samples := Some df,
                                                   m_derived_samples := Some derived\<rparr>)
                                               results), w'))))))"

text \<open>Lines 87 to 102, then the fresh run.\<close>

definition fit_gaia_data ::
  "externals \<Rightarrow> string \<Rightarrow> nat \<Rightarrow> bool \<Rightarrow> string \<Rightarrow> world \<Rightarrow> (error + fit_result) \<times> world" where
  "fit_gaia_data ext name gaia_data clobber output_dir w =
     (let (md, h) = SingleStarModel (objs w) gaia_data;
          w = w\<lparr>objs := h\<rparr>;
          output_dir = path_join (path_join output_dir (version ext)) name;
          w = w\<lparr>dirs := insert output_dir (dirs w)\<rparr>;
          fn = path_join output_dir ''star.h5''
      in if \<not> clobber \<and> path_exists w fn
         then (case read_hdf (files w) fn ''samples'' of
                 Inl e \<Rightarrow> (Inl e, w)
               | Inr s \<Rightarrow>
                   (case read_hdf (files w) fn ''derived_samples'' of
                      Inl e \<Rightarrow> (Inl e, w)
                    | Inr d \<Rightarrow>
                        (Inr (Loaded (md\<lparr>m_samples := Some s, m_derived_samples := Some d\<rparr>)),
                         w)))
         else fresh_fit ext gaia_data md output_dir fn w)"

section \<open>Example data\<close>

text \<open>A bright source with exact fluxes, and a one-point run of the sampler.\<close>

definition row0 :: gaia_row where
  "row0 = \<lparr>parallax = Fin 1, parallax_error = Fin 0,
           phot_g_mean_mag = Fin 12, phot_g_mean_flux = Fin 1, phot_g_mean_flux_error = Fin 0,
           phot_bp_mean_mag = Fin 12, phot_bp_mean_flux = Fin 1, phot_bp_mean_flux_error = Fin 0,
           phot_rp_mean_mag = Fin 12, phot_rp_mean_flux = Fin 1, phot_rp_mean_flux_error = Fin 0\<rparr>"

definition ex_store :: store where
  "ex_store = [[''G'' \<mapsto> NdArray [Fin 12, Fin 0], ''BP'' \<mapsto> NdArray [Fin 12, Fin 0],
                ''RP'' \<mapsto> NdArray [Fin 12, Fin 0]]]"

definition ex_theta :: "fl list" where
  "ex_theta = [Fin 100, Fin 0, Fin 0, Fin 0, Fin 0]"

definition ex_results :: sampler_results where
  "ex_results = \<lparr>res_samples = \<lparr>shape1 = 5, rows = [ex_theta]\<rparr>,
                  res_logwt = [Fin 0], res_logz = [Fin 0], res_logzerr = [Fin 0],
                  res_nlive = 1, res_niter = 1, res_ncall = [1], res_eff = Fin 1\<rparr>"

definition ex_ext :: externals where
  "ex_ext = \<lparr>version = ''0.1'', n_params = 2, param_names = [''distance'', ''AV''],
             lnpost = (\<lambda>kw th. case kw ''G'' of Some (Tuple [m, e]) \<Rightarrow> fneg e | _ \<Rightarrow> NaN),
             mnest_prior = (\<lambda>u. u), ic = (\<lambda>cols. Map.empty),
             run_nested = (\<lambda>ll pt n h. (Inr ex_results, snd (ll h ex_theta))),
             resample_equal = (\<lambda>a w. a), describe = (\<lambda>t. t),
             time_start = Fin 0, time_end = Fin 60\<rparr>"

definition ex_world :: world where
  "ex_world = \<lparr>objs = ex_store, dirs = {}, files = Map.empty, sampler_runs = 0, stdout = []\<rparr>"

definition ex_saved :: world where
  "ex_saved = \<lparr>objs = ex_store, dirs = {''out/0.1/star''},
       files = [''out/0.1/star/star.h5'' \<mapsto>
                  Hdf [''samples'' \<mapsto> [''distance'' \<mapsto> [Fin 100]],
                       ''derived_samples'' \<mapsto> [''parallax'' \<mapsto> [Fin 10]]]],
       sampler_runs = 0, stdout = []\<rparr>"

section \<open>Properties of the catalog lookup\<close>

lemma mag_mask_iff:
  "mag_mask (Fin m) (Fin tol) row \<longleftrightarrow> (\<exists>g. phot_g_mean_mag row = Fin g \<and> \<bar>g - m\<bar> < tol)"
  by (cases "phot_g_mean_mag row") (simp_all add: mag_mask_def fsub_def)

text \<open>The band loop succeeds exactly on nonzero fluxes and finite values.\<close>

lemma band_params_Inr:
  assumes "band_params r bs params = Inr p"
  shows "\<forall>b \<in> set bs. phot_mean_flux r b \<noteq> Fin 0 \<and> isfinite (phot_mean_mag r b)
            \<and> isfinite (fmul (np_div (phot_mean_flux_error r b) (phot_mean_flux r b)) factor)"
  using assms
  by (induction bs arbitrary: params)
     (auto simp: py_truediv_def Let_def split: if_splits sum.splits)

lemma band_params_eval:
  assumes "\<forall>b \<in> set bs. phot_mean_flux r b \<noteq> Fin 0 \<and> isfinite (phot_mean_mag r b)
            \<and> isfinite (fmul (np_div (phot_mean_flux_error r b) (phot_mean_flux r b)) factor)"
  shows "band_params r bs params =
           Inr (fold (\<lambda>b p. p(band_key b \<mapsto> Tuple [phot_mean_mag r b,
                  fmul (np_div (phot_mean_flux_error r b) (phot_mean_flux r b)) factor]))
                bs params)"
  using assms
  by (induction bs arbitrary: params) (auto simp: py_truediv_def Let_def)

lemma band_params_all:
  assumes "band_params r [G, BP, RP] Map.empty = Inr p"
  shows "p = [''G'' \<mapsto> Tuple [phot_mean_mag r G,
                 fmul (np_div (phot_mean_flux_error r G) (phot_mean_flux r G)) factor],
              ''BP'' \<mapsto> Tuple [phot_mean_mag r BP,
                 fmul (np_div (phot_mean_flux_error r BP) (phot_mean_flux r BP)) factor],
              ''RP'' \<mapsto> Tuple [phot_mean_mag r RP,
                 fmul (np_div (phot_mean_flux_error r RP) (phot_mean_flux r RP)) factor]]"
  using band_params_eval [OF band_params_Inr [OF assms], of Map.empty] assms by simp

lemma clip_distance:
  "0 < q \<Longrightarrow> np_clip (np_div (Fin 2000) (Fin q)) (Fin 100) PInf = Fin (max 100 (2000 / q))"
  by (simp add: np_clip_def max_def)

lemma parallax_finite:
  assumes "isfinite (fadd (parallax r) (Fin c))"
      and "isfinite (fsqrt (fadd (fsquare (parallax_error r)) (Fin (d\<^sup>2))))"
  shows "\<exists>p e. parallax r = Fin p \<and> parallax_error r = Fin e"
  using assms by (cases "parallax r"; cases "parallax_error r") simp_all

text \<open>What a successful \<open>gaia_params\<close> has computed, and how the extra fields enter.\<close>

lemma gaia_params_Inr:
  assumes "gaia_params r kwargs = Inr params"
  shows "\<exists>p e computed.
           parallax r = Fin p \<and> parallax_error r = Fin e
         \<and> gaia_params r Map.empty = Inr computed
         \<and> params = computed ++ kwargs
         \<and> computed ''parallax'' = Some (NdArray [Fin (p + 0.082), Fin (sqrt (e\<^sup>2 + 0.033\<^sup>2))])
         \<and> computed ''max_distance'' =
             (if 0 < p + 0.082 then Some (NpFloat (Fin (max 100 (2000 / (p + 0.082))))) else None)"
proof -
  from assms have fin: "isfinite (fadd (parallax r) (Fin 0.082))"
      "isfinite (fsqrt (fadd (fsquare (parallax_error r)) (Fin (0.033\<^sup>2))))"
    by (auto simp: gaia_params_def Let_def split: if_splits)
  from parallax_finite [OF this] obtain p e
    where pe: "parallax r = Fin p" "parallax_error r = Fin e" by blast
  from assms fin obtain bp where bp: "band_params r [G, BP, RP] Map.empty = Inr bp"
    by (auto simp: gaia_params_def Let_def split: if_splits sum.splits)
  note bpe = band_params_all [OF bp]
  have nonneg: "\<not> e\<^sup>2 + 0.033\<^sup>2 < 0"
    by (simp add: not_less add_nonneg_nonneg)
  define computed where "computed =
     (let params = bp(''parallax'' \<mapsto> Tuple [Fin (p + 0.082), Fin (sqrt (e\<^sup>2 + 0.033\<^sup>2))]);
          params = (\<lambda>k. map_option np_array (params k))
      in if 0 < p + 0.082
         then params(''max_distance'' \<mapsto> NpFloat (Fin (max 100 (2000 / (p + 0.082)))))
         else params)"
  have eval: "gaia_params r kw = Inr (computed ++ kw)" for kw
  proof (cases "0 < p + 0.082")
    case True
    then show ?thesis
      unfolding gaia_params_def computed_def pe using bp nonneg
      by (simp add: Let_def clip_distance del: band_params.simps np_div.simps)
  next
    case False
    then show ?thesis
      unfolding gaia_params_def computed_def pe using bp nonneg
      by (simp add: Let_def del: band_params.simps np_div.simps)
  qed
  have c0: "gaia_params r Map.empty = Inr computed"
    using eval [of Map.empty] by simp
  have c1: "params = computed ++ kwargs"
    using eval [of kwargs] assms by simp
  have c2: "computed ''parallax'' = Some (NdArray [Fin (p + 0.082), Fin (sqrt (e\<^sup>2 + 0.033\<^sup>2))])"
    unfolding computed_def by (simp add: Let_def)
  have c3: "computed ''max_distance'' =
             (if 0 < p + 0.082 then Some (NpFloat (Fin (max 100 (2000 / (p + 0.082))))) else None)"
    unfolding computed_def bpe by (simp add: Let_def)
  from pe c0 c1 c2 c3 show ?thesis by blast
qed

lemma get_gaia_data_Inr:
  assumes "get_gaia_data cs coord am rad tol kwargs = Inr params"
  shows "\<exists>r. gaia_match cs coord am rad tol = Inr r \<and> gaia_params r kwargs = Inr params"
  using assms by (auto simp: get_gaia_data_def split: sum.splits)

lemma row0_match: "gaia_match (\<lambda>_ _. [row0]) () None None (Fin 1) = Inr row0"
  by (simp add: gaia_match_def candidates_def)

lemma row0_lookup: "\<exists>params. get_gaia_data (\<lambda>_ _. [row0]) () None None (Fin 1) kw = Inr params"
  by (simp add: get_gaia_data_def gaia_match_def candidates_def gaia_params_def row0_def
        py_truediv_def factor_def Let_def)

text \<open>
  Claim C4. The lookup is claimed to fail in exactly three cases (no match, non-finite
  parallax, non-finite photometry) and to return a record otherwise. A row whose G
  flux is zero, all else finite, is none of the three as the code tests them, and the
  lookup neither returns a record nor raises one of the three \<^verbatim>\<open>ValueError\<close>s: the
  division of line 68 raises \<^verbatim>\<open>ZeroDivisionError\<close> before the finiteness test of
  line 70 is reached.
\<close>

theorem lookup_zero_flux_raises:
  "get_gaia_data (\<lambda>_ _. [row0\<lparr>phot_g_mean_flux := Fin 0\<rparr>]) () None None (Fin 1) Map.empty
     = Inl ZeroDivisionError"
  by (simp add: get_gaia_data_def gaia_match_def candidates_def gaia_params_def row0_def
        py_truediv_def Let_def)

text \<open>
  Claim C5, as stated: for every catalog row the lookup returns the corrected parallax
  and error. The merge of line 82 lets an extra keyword field named \<^verbatim>\<open>parallax\<close>
  replace the computed pair: looked up with \<^verbatim>\<open>parallax=7.0\<close>, the row of catalog
  parallax 1 comes back with 7 under \<^verbatim>\<open>parallax\<close>, not with the corrected pair.
\<close>

theorem parallax_overridden_by_kwargs:
  "parallax row0 = Fin 1 \<and> parallax_error row0 = Fin 0
   \<and> map_sum id (\<lambda>params. params ''parallax'')
        (get_gaia_data (\<lambda>_ _. [row0]) () None None (Fin 1) [''parallax'' \<mapsto> PyFloat (Fin 7)])
      = Inr (Some (PyFloat (Fin 7)))
   \<and> PyFloat (Fin 7) \<noteq> NdArray [Fin (1 + 0.082), Fin (sqrt (0\<^sup>2 + 0.033\<^sup>2))]"
  by (simp add: get_gaia_data_def gaia_match_def candidates_def gaia_params_def row0_def
        py_truediv_def factor_def Let_def)

text \<open>
  Claim C5, amended: whenever the lookup returns a record for the matched row, the
  catalog parallax and its error are finite, and the record's parallax is the catalog
  parallax plus 0.082 with the error \<open>sqrt (parallax_error\<^sup>2 + 0.033\<^sup>2)\<close>, unless the
  caller passed an extra keyword field named \<^verbatim>\<open>parallax\<close>, whose value is then the
  one returned. The corrected pair is a function of the row alone, so two lookups that
  match the same row, with the same extra fields, agree on it.
\<close>

theorem parallax_correction:
  assumes "gaia_match cone_search coord approx_mag radius mag_tol = Inr r"
      and "get_gaia_data cone_search coord approx_mag radius mag_tol kwargs = Inr params"
  shows "\<exists>p e. parallax r = Fin p \<and> parallax_error r = Fin e
           \<and> params ''parallax'' =
               (case kwargs ''parallax'' of
                  None \<Rightarrow> Some (NdArray [Fin (p + 0.082), Fin (sqrt (e\<^sup>2 + 0.033\<^sup>2))])
                | Some v \<Rightarrow> Some v)"
proof -
  from assms have "gaia_params r kwargs = Inr params"
    by (simp add: get_gaia_data_def)
  from gaia_params_Inr [OF this] show ?thesis
    by (auto simp: map_add_def split: option.splits)
qed

theorem parallax_correction_witness:
  "map_sum id (\<lambda>params. params ''parallax'')
     (get_gaia_data (\<lambda>_ _. [row0]) () None None (Fin 1) Map.empty)
   = Inr (Some (NdArray [Fin (1 + 0.082), Fin (sqrt (0\<^sup>2 + 0.033\<^sup>2))]))"
proof -
  from row0_lookup [of Map.empty] obtain params
    where p: "get_gaia_data (\<lambda>_ _. [row0]) () None None (Fin 1) Map.empty = Inr params" by blast
  from parallax_correction [OF row0_match p] show ?thesis
    unfolding p by (simp add: row0_def)
qed

text \<open>
  Claim C6, as stated: the returned record has a \<^verbatim>\<open>max_distance\<close> field exactly when
  the corrected parallax is positive, and the field is never below 100. The merge of
  line 82 also admits a \<^verbatim>\<open>max_distance\<close> passed by the caller: for a row of catalog
  parallax \<open>-1\<close>, whose corrected parallax is not positive, a lookup with
  \<^verbatim>\<open>max_distance=5.0\<close> returns a record that has the field, with the value 5.
\<close>

theorem max_distance_overridden_by_kwargs:
  "parallax (row0\<lparr>parallax := Fin (- 1)\<rparr>) = Fin (- 1)
   \<and> \<not> 0 < (- 1 + 0.082 :: real) \<and> (5 :: real) < 100
   \<and> map_sum id (\<lambda>params. params ''max_distance'')
        (get_gaia_data (\<lambda>_ _. [row0\<lparr>parallax := Fin (- 1)\<rparr>]) () None None (Fin 1)
           [''max_distance'' \<mapsto> PyFloat (Fin 5)])
      = Inr (Some (PyFloat (Fin 5)))"
  by (simp add: get_gaia_data_def gaia_match_def candidates_def gaia_params_def row0_def
        py_truediv_def factor_def Let_def)

text \<open>
  Claim C6, amended: whenever the lookup returns a record for the matched row, and the
  caller passed no extra keyword field named \<^verbatim>\<open>max_distance\<close>, the record has a
  \<^verbatim>\<open>max_distance\<close> field exactly when the corrected parallax is positive, and the field
  is then \<open>max 100 (2000 / corrected parallax)\<close>, which is at least 100. When the caller
  did pass such a field, its value is the one returned.
\<close>

theorem max_distance_iff:
  assumes "gaia_match cone_search coord approx_mag radius mag_tol = Inr r"
      and "get_gaia_data cone_search coord approx_mag radius mag_tol kwargs = Inr params"
  shows "\<exists>p. parallax r = Fin p
           \<and> params ''max_distance'' =
               (case kwargs ''max_distance'' of
                  None \<Rightarrow> (if 0 < p + 0.082
                            then Some (NpFloat (Fin (max 100 (2000 / (p + 0.082)))))
                            else None)
                | Some v \<Rightarrow> Some v)
           \<and> 100 \<le> max 100 (2000 / (p + 0.082))"
proof -
  from assms have "gaia_params r kwargs = Inr params"
    by (simp add: get_gaia_data_def)
  from gaia_params_Inr [OF this] show ?thesis
    by (auto simp: map_add_def split: option.splits)
qed

theorem max_distance_iff_witness:
  "map_sum id (\<lambda>params. params ''max_distance'')
     (get_gaia_data (\<lambda>_ _. [row0]) () None None (Fin 1) Map.empty)
   = Inr (Some (NpFloat (Fin (max 100 (2000 / (1 + 0.082))))))"
proof -
  from row0_lookup [of Map.empty] obtain params
    where p: "get_gaia_data (\<lambda>_ _. [row0]) () None None (Fin 1) Map.empty = Inr params" by blast
  from max_distance_iff [OF row0_match p] show ?thesis
    unfolding p by (simp add: row0_def)
qed

text \<open>
  Claim C7, as stated: a candidate is discarded exactly when its G magnitude differs
  from \<^verbatim>\<open>approx_mag\<close> by more than the tolerance, so one at exactly the tolerance is
  kept. The code keeps a row only when the difference is strictly below the
  tolerance: a source of magnitude 12 looked up at magnitude 11 with tolerance 1
  differs by exactly the tolerance and is discarded.
\<close>

theorem magnitude_filter_boundary_discarded:
  "phot_g_mean_mag row0 = Fin 12 \<and> \<not> \<bar>12 - 11\<bar> > (1::real)
   \<and> candidates (\<lambda>_ _. [row0]) () (Some (Fin 11)) None (Fin 1) = []"
  by (simp add: candidates_def row0_def mag_mask_def fsub_def)

text \<open>
  Claim C7, amended: with a finite \<^verbatim>\<open>approx_mag\<close> and tolerance, a cone-search
  candidate is kept exactly when its G magnitude is finite and differs from
  \<^verbatim>\<open>approx_mag\<close> by strictly less than the tolerance; it is discarded otherwise, also
  when the difference equals the tolerance.
\<close>

theorem magnitude_filter_strict:
  "row \<in> set (candidates cone_search coord (Some (Fin m)) radius (Fin tol)) \<longleftrightarrow>
     row \<in> set (cone_search coord (case radius of None \<Rightarrow> 20 | Some x \<Rightarrow> x))
   \<and> (\<exists>g. phot_g_mean_mag row = Fin g \<and> \<bar>g - m\<bar> < tol)"
  by (simp add: candidates_def mag_mask_iff)

theorem magnitude_filter_strict_witness:
  "row0 \<in> set (candidates (\<lambda>_ _. [row0]) () (Some (Fin 11.5)) None (Fin 1))"
  using magnitude_filter_strict [where row = row0 and cone_search = "\<lambda>_ _. [row0]"
          and coord = "()" and m = "11.5" and radius = None and tol = 1]
  by (simp add: row0_def)

text \<open>
  Claim C8, as stated: the merge of the extra keyword fields leaves every computed
  field at its computed value, even on a shared key. An extra field named \<^verbatim>\<open>G\<close>
  replaces the computed G entry.
\<close>

theorem kwargs_override_computed:
  "map_sum id (\<lambda>params. params ''G'')
      (get_gaia_data (\<lambda>_ _. [row0]) () None None (Fin 1) Map.empty)
     = Inr (Some (NdArray [Fin 12, Fin 0]))
   \<and> map_sum id (\<lambda>params. params ''G'')
      (get_gaia_data (\<lambda>_ _. [row0]) () None None (Fin 1) [''G'' \<mapsto> PyFloat (Fin 5)])
     = Inr (Some (PyFloat (Fin 5)))"
  by (simp add: get_gaia_data_def gaia_match_def candidates_def gaia_params_def row0_def
        py_truediv_def factor_def Let_def)

text \<open>
  Claim C8, amended: the returned record is the computed record (the one the lookup
  returns without extra fields) extended by the extra keyword fields; a computed
  field keeps its computed value when no extra field has its key, and on a shared key
  the extra field's value is the one returned.
\<close>

theorem kwargs_merge_last_wins:
  assumes "get_gaia_data cone_search coord approx_mag radius mag_tol kwargs = Inr params"
  shows "\<exists>computed.
           get_gaia_data cone_search coord approx_mag radius mag_tol Map.empty = Inr computed
         \<and> (\<forall>k. params k = (case kwargs k of None \<Rightarrow> computed k | Some v \<Rightarrow> Some v))"
proof -
  from get_gaia_data_Inr [OF assms] obtain r
    where r: "gaia_match cone_search coord approx_mag radius mag_tol = Inr r"
      and p: "gaia_params r kwargs = Inr params" by blast
  from gaia_params_Inr [OF p] obtain computed
    where "gaia_params r Map.empty = Inr computed" "params = computed ++ kwargs" by blast
  with r show ?thesis
    by (auto simp: get_gaia_data_def map_add_def)
qed

theorem kwargs_merge_last_wins_witness:
  "map_sum id (\<lambda>params. (params ''G'', params ''BP''))
      (get_gaia_data (\<lambda>_ _. [row0]) () None None (Fin 1) [''G'' \<mapsto> PyFloat (Fin 5)])
     = Inr (Some (PyFloat (Fin 5)), Some (NdArray [Fin 12, Fin 0]))"
proof -
  let ?kw = "[''G'' \<mapsto> PyFloat (Fin 5)]"
  from row0_lookup [of ?kw] obtain params
    where p: "get_gaia_data (\<lambda>_ _. [row0]) () None None (Fin 1) ?kw = Inr params" by blast
  from kwargs_merge_last_wins [OF p] obtain computed
    where c: "get_gaia_data (\<lambda>_ _. [row0]) () None None (Fin 1) Map.empty = Inr computed"
      and m: "\<forall>k. params k = (case ?kw k of None \<Rightarrow> computed k | Some v \<Rightarrow> Some v)" by blast
  from c have "computed ''BP'' = Some (NdArray [Fin 12, Fin 0])"
    by (auto simp: get_gaia_data_def gaia_match_def candidates_def gaia_params_def row0_def
          py_truediv_def factor_def Let_def)
  with m show ?thesis unfolding p by simp
qed

section \<open>Properties of the wrapped likelihood\<close>

text \<open>The loop writes only the dictionary \<^verbatim>\<open>mod.kwargs\<close> and allocates nothing.\<close>

lemma jitter_loop_frame:
  "length (snd (jitter_loop g md ind0 theta iks lp0 h)) = length h
   \<and> (a \<noteq> kwargs_ref md \<longrightarrow> snd (jitter_loop g md ind0 theta iks lp0 h) ! a = h ! a)"
proof (induction iks arbitrary: lp0 h)
  case Nil
  show ?case by simp
next
  case (Cons ik iks)
  obtain i k where ik: "ik = (i, k)" by (cases ik)
  show ?case
    unfolding ik using Cons.IH
    by (auto simp: Let_def split: option.splits sum.splits)
qed

lemma loglike_snd:
  "snd (loglike ext g md h theta)
     = snd (jitter_loop g md (n_params ext) theta (enumerate 0 jitter_vars) (Fin 0) h)"
  by (simp add: loglike_def Let_def split: prod.splits sum.splits)

lemma loglike_frame:
  "length (snd (loglike ext g md h theta)) = length h
   \<and> (a \<noteq> kwargs_ref md \<longrightarrow> snd (loglike ext g md h theta) ! a = h ! a)"
  unfolding loglike_snd by (rule jitter_loop_frame)

lemma loglike_evals_frame:
  "a \<noteq> kwargs_ref md \<Longrightarrow> loglike_evals (loglike ext g md) h thetas ! a = h ! a"
  by (induction thetas arbitrary: h) (simp_all add: loglike_frame)

lemma np_clip_floor: "np_clip (Fin x) (Fin c) PInf = Fin (max c x)"
  by (simp add: np_clip_def max_def)

text \<open>Lines 127 to 129: what is returned for a total \<open>lp\<close>.\<close>

lemma floor_value:
  assumes "R = Inr (if isfinite lp then np_clip lp (Fin c) PInf else Fin c)"
  shows "(\<forall>x. lp = Fin x \<longrightarrow> R = Inr (Fin (max c x)))
       \<and> (\<not> isfinite lp \<longrightarrow> R = Inr (Fin c))
       \<and> (\<exists>x. R = Inr (Fin x) \<and> c \<le> x)"
  unfolding assms by (cases lp) (simp_all add: np_clip_floor)

text \<open>The three rounds of the loop on a record that holds the three bands.\<close>

lemma jitter_loop_eval:
  assumes "n_params ext + 3 \<le> length theta"
      and "gaia_data < length h" and "kwargs_ref md < length h"
      and "kwargs_ref md \<noteq> gaia_data"
      and "(h ! gaia_data) ''G'' = Some (NdArray [mG, eG])"
      and "(h ! gaia_data) ''BP'' = Some (NdArray [mBP, eBP])"
      and "(h ! gaia_data) ''RP'' = Some (NdArray [mRP, eRP])"
  shows "jitter_loop gaia_data md (n_params ext) theta (enumerate 0 jitter_vars) (Fin 0) h =
     (let errG = fsqrt (fadd (fsquare eG) (fexp (theta ! (n_params ext + 0))));
          errBP = fsqrt (fadd (fsquare eBP) (fexp (theta ! (n_params ext + 1))));
          errRP = fsqrt (fadd (fsquare eRP) (fexp (theta ! (n_params ext + 2))));
          lp0 = fsub (fsub (fsub (Fin 0) (fmul (Fin 2) (flog errG)))
                        (fmul (Fin 2) (flog errBP))) (fmul (Fin 2) (flog errRP))
      in (Inr lp0, h[kwargs_ref md := (h ! kwargs_ref md)
                       (''G'' \<mapsto> Tuple [mG, errG],
                        ''BP'' \<mapsto> Tuple [mBP, errBP],
                        ''RP'' \<mapsto> Tuple [mRP, errRP])]))"
  using assms
  by (simp add: jitter_vars_def Let_def nth_list_update
        del: fsqrt.simps fadd.simps fsquare.simps fexp.simps fmul.simps flog.simps)

lemma loglike_eval:
  assumes "n_params ext + 3 \<le> length theta"
      and "gaia_data < length h" and "kwargs_ref md < length h"
      and "kwargs_ref md \<noteq> gaia_data"
      and "(h ! gaia_data) ''G'' = Some (NdArray [mG, eG])"
      and "(h ! gaia_data) ''BP'' = Some (NdArray [mBP, eBP])"
      and "(h ! gaia_data) ''RP'' = Some (NdArray [mRP, eRP])"
  shows "loglike ext gaia_data md h theta =
     (let errG = fsqrt (fadd (fsquare eG) (fexp (theta ! (n_params ext + 0))));
          errBP = fsqrt (fadd (fsquare eBP) (fexp (theta ! (n_params ext + 1))));
          errRP = fsqrt (fadd (fsquare eRP) (fexp (theta ! (n_params ext + 2))));
          lp0 = fsub (fsub (fsub (Fin 0) (fmul (Fin 2) (flog errG)))
                        (fmul (Fin 2) (flog errBP))) (fmul (Fin 2) (flog errRP));
          kwargs = (h ! kwargs_ref md)
                       (''G'' \<mapsto> Tuple [mG, errG],
                        ''BP'' \<mapsto> Tuple [mBP, errBP],
                        ''RP'' \<mapsto> Tuple [mRP, errRP]);
          lp = fadd lp0 (lnpost ext kwargs (take (n_params ext) theta))
      in (Inr (if isfinite lp then np_clip lp (Fin (- (10 ^ 10))) PInf else Fin (- (10 ^ 10))),
          h[kwargs_ref md := kwargs]))"
  using assms(3)
  by (simp add: loglike_def Let_def jitter_loop_eval [OF assms] del: jitter_loop.simps)

text \<open>
  Claim C1. Let \<open>theta\<close> have length \<open>n_params + 3\<close>, let the record hold a (magnitude,
  error) pair for each of G, BP and RP, and let \<^verbatim>\<open>mod.kwargs\<close> be a dictionary of its
  own. Then the log-likelihood computes, band by band in the order G, BP, RP, the
  inflated error \<open>sqrt (error\<^sup>2 + exp (theta[n_params + k]))\<close>, subtracts twice its
  logarithm from a total that starts at zero, stores (magnitude, inflated error) under
  the band's key in \<^verbatim>\<open>mod.kwargs\<close>, and returns the total plus the model's
  log-posterior at the first \<open>n_params\<close> entries of \<open>theta\<close>, evaluated on the updated
  \<^verbatim>\<open>mod.kwargs\<close>, clipped below at \<open>-10\<^sup>1\<^sup>0\<close> by the code's clipping: \<^verbatim>\<open>np.clip\<close> on
  a finite sum, the floor itself on a sum that is not finite.
\<close>

theorem loglike_value:
  assumes "length theta = n_params ext + 3"
      and "gaia_data < length h" and "kwargs_ref md < length h"
      and "kwargs_ref md \<noteq> gaia_data"
      and "(h ! gaia_data) ''G'' = Some (NdArray [mG, eG])"
      and "(h ! gaia_data) ''BP'' = Some (NdArray [mBP, eBP])"
      and "(h ! gaia_data) ''RP'' = Some (NdArray [mRP, eRP])"
  shows "loglike ext gaia_data md h theta =
     (let errG = fsqrt (fadd (fsquare eG) (fexp (theta ! (n_params ext + 0))));
          errBP = fsqrt (fadd (fsquare eBP) (fexp (theta ! (n_params ext + 1))));
          errRP = fsqrt (fadd (fsquare eRP) (fexp (theta ! (n_params ext + 2))));
          lp0 = fsub (fsub (fsub (Fin 0) (fmul (Fin 2) (flog errG)))
                        (fmul (Fin 2) (flog errBP))) (fmul (Fin 2) (flog errRP));
          kwargs = (h ! kwargs_ref md)
                       (''G'' \<mapsto> Tuple [mG, errG],
                        ''BP'' \<mapsto> Tuple [mBP, errBP],
                        ''RP'' \<mapsto> Tuple [mRP, errRP]);
          lp = fadd lp0 (lnpost ext kwargs (take (n_params ext) theta))
      in (Inr (if isfinite lp then np_clip lp (Fin (- (10 ^ 10))) PInf else Fin (- (10 ^ 10))),
          h[kwargs_ref md := kwargs]))"
proof -
  from assms(1) have len: "n_params ext + 3 \<le> length theta" by simp
  show ?thesis by (rule loglike_eval [OF len assms(2-)])
qed

theorem loglike_value_witness:
  "fst (loglike ex_ext 0 (fst (SingleStarModel ex_store 0)) (snd (SingleStarModel ex_store 0))
          ex_theta) = Inr (Fin (- 1))
   \<and> (snd (loglike ex_ext 0 (fst (SingleStarModel ex_store 0))
              (snd (SingleStarModel ex_store 0)) ex_theta) ! 1) ''G''
       = Some (Tuple [Fin 12, Fin 1])"
  using loglike_value [where theta = ex_theta and ext = ex_ext and gaia_data = 0
         and h = "snd (SingleStarModel ex_store 0)" and md = "fst (SingleStarModel ex_store 0)"
         and mG = "Fin 12" and eG = "Fin 0" and mBP = "Fin 12" and eBP = "Fin 0"
         and mRP = "Fin 12" and eRP = "Fin 0"]
  by (simp add: ex_ext_def ex_store_def ex_theta_def SingleStarModel_def Let_def fsub_def
        np_clip_def)

text \<open>
  Claim C2. On a parameter vector with at least \<open>n_params + 3\<close> entries, whatever their
  values (finite, infinite or NaN), and on a record that holds the three bands, the
  log-likelihood returns a value, and the value is determined by the total
  log-probability \<open>lp\<close> (the correction total plus the model's log-posterior): for a
  finite total \<open>x\<close> it is \<open>max (-10\<^sup>1\<^sup>0) x\<close>, the total clipped to the floor; for a total
  that is NaN or an infinity it is exactly \<open>-10\<^sup>1\<^sup>0\<close>. In either case it is a finite
  number that is at least \<open>-10\<^sup>1\<^sup>0\<close>.
\<close>

theorem loglike_finite_floor:
  assumes "n_params ext + 3 \<le> length theta"
      and "gaia_data < length h" and "kwargs_ref md < length h"
      and "kwargs_ref md \<noteq> gaia_data"
      and "(h ! gaia_data) ''G'' = Some (NdArray [mG, eG])"
      and "(h ! gaia_data) ''BP'' = Some (NdArray [mBP, eBP])"
      and "(h ! gaia_data) ''RP'' = Some (NdArray [mRP, eRP])"
  shows
    "(let errG = fsqrt (fadd (fsquare eG) (fexp (theta ! (n_params ext + 0))));
          errBP = fsqrt (fadd (fsquare eBP) (fexp (theta ! (n_params ext + 1))));
          errRP = fsqrt (fadd (fsquare eRP) (fexp (theta ! (n_params ext + 2))));
          lp0 = fsub (fsub (fsub (Fin 0) (fmul (Fin 2) (flog errG)))
                        (fmul (Fin 2) (flog errBP))) (fmul (Fin 2) (flog errRP));
          kwargs = (h ! kwargs_ref md)
                       (''G'' \<mapsto> Tuple [mG, errG],
                        ''BP'' \<mapsto> Tuple [mBP, errBP],
                        ''RP'' \<mapsto> Tuple [mRP, errRP]);
          lp = fadd lp0 (lnpost ext kwargs (take (n_params ext) theta));
          result = fst (loglike ext gaia_data md h theta)
      in (\<forall>x. lp = Fin x \<longrightarrow> result = Inr (Fin (max (- (10 ^ 10)) x)))
       \<and> (\<not> isfinite lp \<longrightarrow> result = Inr (Fin (- (10 ^ 10))))
       \<and> (\<exists>x. result = Inr (Fin x) \<and> - (10 ^ 10) \<le> x))"
  unfolding Let_def
  by (rule floor_value) (simp add: loglike_eval [OF assms] Let_def)

theorem loglike_finite_floor_witness:
  "fst (loglike ex_ext 0 (fst (SingleStarModel ex_store 0)) (snd (SingleStarModel ex_store 0))
          ex_theta) = Inr (Fin (max (- (10 ^ 10)) (- 1)))
   \<and> fst (loglike ex_ext 0 (fst (SingleStarModel ex_store 0)) (snd (SingleStarModel ex_store 0))
          [Fin 100, Fin 0, NaN, PInf, NInf]) = Inr (Fin (- (10 ^ 10)))"
proof
  show "fst (loglike ex_ext 0 (fst (SingleStarModel ex_store 0))
          (snd (SingleStarModel ex_store 0)) ex_theta) = Inr (Fin (max (- (10 ^ 10)) (- 1)))"
    using loglike_finite_floor [where theta = ex_theta and ext = ex_ext and gaia_data = 0
         and h = "snd (SingleStarModel ex_store 0)" and md = "fst (SingleStarModel ex_store 0)"
         and mG = "Fin 12" and eG = "Fin 0" and mBP = "Fin 12" and eBP = "Fin 0"
         and mRP = "Fin 12" and eRP = "Fin 0"]
    by (simp add: ex_ext_def ex_store_def ex_theta_def SingleStarModel_def Let_def fsub_def)
next
  show "fst (loglike ex_ext 0 (fst (SingleStarModel ex_store 0))
          (snd (SingleStarModel ex_store 0)) [Fin 100, Fin 0, NaN, PInf, NInf])
        = Inr (Fin (- (10 ^ 10)))"
    using loglike_finite_floor [where theta = "[Fin 100, Fin 0, NaN, PInf, NInf]"
         and ext = ex_ext and gaia_data = 0
         and h = "snd (SingleStarModel ex_store 0)" and md = "fst (SingleStarModel ex_store 0)"
         and mG = "Fin 12" and eG = "Fin 0" and mBP = "Fin 12" and eBP = "Fin 0"
         and mRP = "Fin 12" and eRP = "Fin 0"]
    by (simp add: ex_ext_def ex_store_def SingleStarModel_def Let_def fsub_def)
qed

text \<open>
  Claim C10. The model built by the fit keeps its parameters in a dictionary of its
  own, distinct from the caller's record. Any number of evaluations of the
  log-likelihood, on any parameter vectors and whether they return or raise, leave the
  caller's record as it was before the model was built.
\<close>

theorem loglike_leaves_gaia_data:
  assumes "gaia_data < length h"
      and "SingleStarModel h gaia_data = (md, h1)"
  shows "kwargs_ref md \<noteq> gaia_data
       \<and> h1 ! gaia_data = h ! gaia_data
       \<and> loglike_evals (loglike ext gaia_data md) h1 thetas ! gaia_data = h ! gaia_data"
proof -
  from assms have ne: "gaia_data \<noteq> kwargs_ref md" and h1: "h1 ! gaia_data = h ! gaia_data"
    by (auto simp: SingleStarModel_def nth_append)
  from loglike_evals_frame [OF ne] h1 ne show ?thesis by simp
qed

theorem loglike_leaves_gaia_data_witness:
  "loglike_evals (loglike ex_ext 0 (fst (SingleStarModel ex_store 0)))
     (snd (SingleStarModel ex_store 0)) [ex_theta, []] ! 0 = ex_store ! 0"
  using loglike_leaves_gaia_data [where gaia_data = 0 and h = ex_store
        and md = "fst (SingleStarModel ex_store 0)"
        and ?h1.0 = "snd (SingleStarModel ex_store 0)" and ext = ex_ext
        and thetas = "[ex_theta, []]"]
  by (simp add: ex_store_def)

section \<open>Properties of the fit\<close>

lemma derived_frame_Inr:
  assumes "derived_frame ext df = Inr derived"
  shows "\<exists>distance. df ''distance'' = Some distance \<and> derived ''distance'' = Some distance
           \<and> derived ''parallax'' = Some (map (np_div (Fin 1000)) distance)"
  using assms
  by (auto simp: derived_frame_def Let_def split: sum.splits option.splits)

lemma path_join_star:
  "path_join d ''star_summary.csv'' \<noteq> path_join d ''star.h5''"
  "path_join d ''star_sampling_summary.json'' \<noteq> path_join d ''star.h5''"
  by (simp_all add: path_join_def)

lemma to_hdf_read:
  assumes "to_hdf fs fn key t = Inr fs'"
  shows "read_hdf fs' fn key = Inr t"
  using assms by (auto simp: to_hdf_def read_hdf_def split: option.splits file_content.splits)

lemma to_hdf_read_other:
  assumes "to_hdf fs fn key t = Inr fs'" and "key' \<noteq> key" and "read_hdf fs fn key' = Inr t'"
  shows "read_hdf fs' fn key' = Inr t'"
  using assms by (auto simp: to_hdf_def read_hdf_def split: option.splits file_content.splits)

text \<open>After the files are written, both tables can be read back from \<^verbatim>\<open>star.h5\<close>.\<close>

lemma persist_Inr:
  assumes "persist ext od (path_join od ''star.h5'') df derived results tt w = Inr w'"
  shows "read_hdf (files w') (path_join od ''star.h5'') ''samples'' = Inr df
       \<and> read_hdf (files w') (path_join od ''star.h5'') ''derived_samples'' = Inr derived"
proof -
  let ?fn = "path_join od ''star.h5''"
  from assms obtain fs1 fs2 summary
    where 1: "to_hdf (files w) ?fn ''samples'' df = Inr fs1"
      and 2: "to_hdf fs1 ?fn ''derived_samples'' derived = Inr fs2"
      and 3: "files w' = fs2(path_join od ''star_summary.csv'' \<mapsto> CsvFile (describe ext derived),
                            path_join od ''star_sampling_summary.json'' \<mapsto> JsonFile summary)"
    by (auto simp: persist_def Let_def split: sum.splits)
  have a: "read_hdf fs2 ?fn ''samples'' = Inr df"
    by (rule to_hdf_read_other [OF 2 _ to_hdf_read [OF 1]]) simp
  have b: "read_hdf fs2 ?fn ''derived_samples'' = Inr derived"
    by (rule to_hdf_read [OF 2])
  have "files w' ?fn = fs2 ?fn"
    unfolding 3 using path_join_star [of od] by simp
  then have "read_hdf (files w') ?fn key = read_hdf fs2 ?fn key" for key
    by (simp add: read_hdf_def)
  with a b show ?thesis by simp
qed

lemma fresh_fit_Fitted:
  assumes "fresh_fit ext g md0 od fn w = (Inr (Fitted md results), w')"
  shows "\<exists>df derived tt w1. md = md0\<lparr>m_samples := Some df, m_derived_samples := Some derived\<rparr>
           \<and> derived_frame ext df = Inr derived
           \<and> persist ext od fn df derived results tt w1 = Inr w'"
  using assms
  by (auto simp: fresh_fit_def Let_def split: sum.splits prod.splits)

lemma fit_Fitted:
  assumes "fit_gaia_data ext name g clobber output_dir w = (Inr (Fitted md results), w')"
  shows "\<exists>md0 w0. fresh_fit ext g md0 (path_join (path_join output_dir (version ext)) name)
            (path_join (path_join (path_join output_dir (version ext)) name) ''star.h5'') w0
              = (Inr (Fitted md results), w')"
  using assms
  by (auto simp: fit_gaia_data_def Let_def split: sum.splits prod.splits if_splits)

text \<open>The example run goes through, with one posterior row at distance 100.\<close>

lemma ex_json: "\<exists>js. gaia_json (ex_store ! 0) = Inr js"
  by (auto simp: gaia_json_def ex_store_def ran_def split: if_splits)

lemma ex_posterior:
  "\<exists>df. posterior_frame ex_ext ex_results = Inr df \<and> df ''distance'' = Some [Fin 100]
         \<and> df ''AV'' = Some [Fin 0]"
  by (simp add: posterior_frame_def ex_ext_def ex_results_def last_item_def Let_def
        jitter_vars_def array_T_def ex_theta_def upt_rec)

lemma ex_fit:
  "\<exists>md results w' df. fit_gaia_data ex_ext ''star'' 0 False ''out'' ex_world
                         = (Inr (Fitted md results), w')
       \<and> m_samples md = Some df \<and> df ''distance'' = Some [Fin 100]"
proof -
  from ex_json obtain js where js: "gaia_json (ex_store ! 0) = Inr js" by blast
  from ex_posterior obtain df
    where df: "posterior_frame ex_ext ex_results = Inr df" "df ''distance'' = Some [Fin 100]"
              "df ''AV'' = Some [Fin 0]" by blast
  have pn: "param_names ex_ext = [''distance'', ''AV'']" and vs: "version ex_ext = ''0.1''"
    by (simp_all add: ex_ext_def)
  have "\<exists>derived. derived_frame ex_ext df = Inr derived"
    using df by (simp add: derived_frame_def Let_def pn)
  then obtain derived where dv: "derived_frame ex_ext df = Inr derived" by blast
  have rn: "run_nested ex_ext = (\<lambda>ll pt n h. (Inr ex_results, snd (ll h ex_theta)))"
    by (simp add: ex_ext_def)
  have lz: "res_logz ex_results = [Fin 0]" "res_logzerr ex_results = [Fin 0]"
    by (simp_all add: ex_results_def)
  have st: "(ex_store @ [ex_store ! 0]) ! 0 = ex_store ! 0"
    by (simp add: ex_store_def)
  show ?thesis
    using js df(1,2) dv
    by (simp add: fit_gaia_data_def fresh_fit_def SingleStarModel_def ex_world_def
          path_exists_def path_join_def Let_def rn vs st persist_def to_hdf_def
          sampling_summary_def last_item_def lz)
qed

text \<open>
  Claim C3. If \<^verbatim>\<open>clobber\<close> is false and the file \<^verbatim>\<open>star.h5\<close> at
  \<^verbatim>\<open>output_dir/version/name\<close> holds a table of samples and a table of derived samples,
  the fit returns the freshly built model with exactly these two tables as its sample
  sets; the sampler is not run and no file is changed.
\<close>

theorem fit_short_circuit:
  assumes "\<not> clobber"
      and "files w (path_join (path_join (path_join output_dir (version ext)) name) ''star.h5'')
             = Some (Hdf tabs)"
      and "tabs ''samples'' = Some s" and "tabs ''derived_samples'' = Some d"
  shows "\<exists>w'. fit_gaia_data ext name gaia_data clobber output_dir w =
            (Inr (Loaded ((fst (SingleStarModel (objs w) gaia_data))
                            \<lparr>m_samples := Some s, m_derived_samples := Some d\<rparr>)), w')
         \<and> sampler_runs w' = sampler_runs w \<and> files w' = files w"
  using assms
  by (simp add: fit_gaia_data_def Let_def path_exists_def read_hdf_def split: prod.splits)

theorem fit_short_circuit_witness:
  "fst (fit_gaia_data ex_ext ''star'' 0 False ''out'' ex_saved)
     = Inr (Loaded \<lparr>kwargs_ref = 1, m_samples = Some [''distance'' \<mapsto> [Fin 100]],
                    m_derived_samples = Some [''parallax'' \<mapsto> [Fin 10]]\<rparr>)
   \<and> sampler_runs (snd (fit_gaia_data ex_ext ''star'' 0 False ''out'' ex_saved)) = 0"
  using fit_short_circuit [where clobber = False and w = ex_saved and output_dir = "''out''"
      and ext = ex_ext and name = "''star''" and gaia_data = 0
      and tabs = "[''samples'' \<mapsto> [''distance'' \<mapsto> [Fin 100]],
                   ''derived_samples'' \<mapsto> [''parallax'' \<mapsto> [Fin 10]]]"
      and s = "[''distance'' \<mapsto> [Fin 100]]" and d = "[''parallax'' \<mapsto> [Fin 10]]"]
  by (auto simp: ex_saved_def ex_ext_def path_join_def SingleStarModel_def ex_store_def)

text \<open>
  Claim C9. After a fresh run of the fit, the derived samples on the returned model,
  which are also the ones written to \<^verbatim>\<open>star.h5\<close>, have as their distance column the
  distance column of the posterior samples, and a parallax column of the same length
  whose every row is 1000 divided by the distance of that row.
\<close>

theorem derived_parallax_from_distance:
  assumes "fit_gaia_data ext name gaia_data clobber output_dir w = (Inr (Fitted md results), w')"
  shows "\<exists>df derived distance plx.
           m_samples md = Some df \<and> m_derived_samples md = Some derived
         \<and> read_hdf (files w')
              (path_join (path_join (path_join output_dir (version ext)) name) ''star.h5'')
              ''derived_samples'' = Inr derived
         \<and> df ''distance'' = Some distance \<and> derived ''distance'' = Some distance
         \<and> derived ''parallax'' = Some plx \<and> length plx = length distance
         \<and> (\<forall>i < length distance. plx ! i = np_div (Fin 1000) (distance ! i))"
proof -
  from fit_Fitted [OF assms] obtain md0 w0
    where "fresh_fit ext gaia_data md0 (path_join (path_join output_dir (version ext)) name)
            (path_join (path_join (path_join output_dir (version ext)) name) ''star.h5'') w0
              = (Inr (Fitted md results), w')" by blast
  from fresh_fit_Fitted [OF this] obtain df derived tt w1
    where md: "md = md0\<lparr>m_samples := Some df, m_derived_samples := Some derived\<rparr>"
      and d: "derived_frame ext df = Inr derived"
      and p: "persist ext (path_join (path_join output_dir (version ext)) name)
                (path_join (path_join (path_join output_dir (version ext)) name) ''star.h5'')
                df derived results tt w1 = Inr w'" by blast
  from derived_frame_Inr [OF d] obtain distance
    where "df ''distance'' = Some distance" "derived ''distance'' = Some distance"
          "derived ''parallax'' = Some (map (np_div (Fin 1000)) distance)" by blast
  with md persist_Inr [OF p] show ?thesis by simp
qed

theorem derived_parallax_from_distance_witness:
  "\<exists>md results w' derived.
     fit_gaia_data ex_ext ''star'' 0 False ''out'' ex_world = (Inr (Fitted md results), w')
   \<and> m_derived_samples md = Some derived
   \<and> derived ''distance'' = Some [Fin 100] \<and> derived ''parallax'' = Some [Fin 10]"
proof -
  from ex_fit obtain md results w' df0
    where f: "fit_gaia_data ex_ext ''star'' 0 False ''out'' ex_world
                = (Inr (Fitted md results), w')"
      and df0: "m_samples md = Some df0" "df0 ''distance'' = Some [Fin 100]"
    by blast
  from derived_parallax_from_distance [OF f] obtain df derived distance plx where *:
     "m_samples md = Some df" "m_derived_samples md = Some derived"
     "df ''distance'' = Some distance" "derived ''distance'' = Some distance"
     "derived ''parallax'' = Some plx" "length plx = length distance"
     "\<forall>i < length distance. plx ! i = np_div (Fin 1000) (distance ! i)" by blast
  from df0 *(1,3) have dist: "distance = [Fin 100]" by simp
  with *(6,7) have "plx = [Fin 10]"
    by (cases plx) simp_all
  with f * dist show ?thesis by simp
qed

end
